theory Spec2Isabelle
  imports Complex_Main "HOL-Library.Product_Lexorder"
begin

section \<open>Management zone delineation (src/src/zones.py)\<close>

text \<open>
  The module interpolates scattered yield samples onto a regular grid by inverse distance
  weighting and clusters the grid values into management zones. NumPy's floating point
  numbers are idealised as \<^typ>\<open>real\<close>; a not-a-number (the mean of an empty selection)
  is \<^term>\<open>None\<close>. Arrays are lists, two-dimensional arrays are lists of rows.

  Exceptions are values of \<open>error\<close>. The module itself raises only
  \<^verbatim>\<open>ValueError("Interpolator not fitted. Call fit() first.")\<close>; the remaining
  constructors are the exceptions of the Python operations it performs (indexing, dictionary
  lookup, \<^verbatim>\<open>len(None)\<close>) and \<open>LibraryError\<close>, any exception that leaves a call into
  numpy, scipy or scikit-learn.
\<close>

datatype error =
    ValueError string
  | TypeError
  | IndexError
  | KeyError
  | LibraryError

type_synonym point = "real \<times> real"

subsection \<open>IDWInterpolator\<close>

text \<open>
  The attributes \<^verbatim>\<open>power\<close> and \<^verbatim>\<open>values\<close> carry a prime, since the plain names are
  taken. \<^verbatim>\<open>tree\<close> is the \<^verbatim>\<open>cKDTree\<close>: it is modelled by the list of indexed points,
  queried by exhaustive search.
\<close>

record IDWInterpolator =
  power' :: real
  max_neighbors :: int
  tree :: "point list option"
  values' :: "real list option"

definition IDWInterpolator_init :: "real \<Rightarrow> int \<Rightarrow> IDWInterpolator" where
  "IDWInterpolator_init p n = \<lparr>power' = p, max_neighbors = n, tree = None, values' = None\<rparr>"

text \<open>\<^verbatim>\<open>fit\<close> builds the index and stores the values. It has no check and no raise.\<close>

definition fit :: "IDWInterpolator \<Rightarrow> point list \<Rightarrow> real list \<Rightarrow> error + IDWInterpolator" where
  "fit self points vals = Inr (self\<lparr>tree := Some points, values' := Some vals\<rparr>)"

definition dist2d :: "point \<Rightarrow> point \<Rightarrow> real" where
  "dist2d a b = sqrt ((fst a - fst b)\<^sup>2 + (snd a - snd b)\<^sup>2)"

text \<open>
  \<^verbatim>\<open>cKDTree.query(x, k)\<close> for one query point: the \<open>k\<close> nearest indexed points as
  (distance, index) pairs, nearest first. Points at equal distance come in index order
  here; scipy leaves their order open. When \<open>k\<close> exceeds the number of indexed points,
  scipy pads the answer with infinite distances; the model returns the neighbours that
  exist (a padded entry has weight \<open>1 / \<infinity>\<close>, which is 0 for a positive power).
\<close>

definition query :: "point list \<Rightarrow> point \<Rightarrow> nat \<Rightarrow> (real \<times> nat) list" where
  "query pts q k = take k (sort_key fst (map (\<lambda>i. (dist2d (pts ! i) q, i)) [0..<length pts]))"

text \<open>
  Lines 77 to 84 of \<^verbatim>\<open>predict\<close> for one row of the distance and index arrays: the
  distances are clamped from below by \<open>1e-10\<close>, the weights \<open>1 / d ** power\<close> are divided
  by their sum, and the values of the neighbours are averaged with these weights.
\<close>

definition idw_weights :: "real \<Rightarrow> (real \<times> nat) list \<Rightarrow> real list" where
  "idw_weights p row = map (\<lambda>(d, i). 1 / (max d (1 / 10 ^ 10)) powr p) row"

definition idw_row :: "real \<Rightarrow> real list \<Rightarrow> (real \<times> nat) list \<Rightarrow> real" where
  "idw_row p vals row =
     (let weights = idw_weights p row;
          s = sum_list weights;
          weights' = map (\<lambda>w. w / s) weights
      in sum_list (map2 (*) weights' (map (\<lambda>(d, i). vals ! i) row)))"

text \<open>
  \<^verbatim>\<open>predict\<close>. The query asks for \<open>k = min(max_neighbors, len(values))\<close> neighbours;
  scipy refuses \<open>k < 1\<close>. For \<open>k = 1\<close> scipy drops the last axis of its answer, so the
  arrays have one dimension and line 72 reshapes them to a single row that holds the
  nearest neighbour of every query point: the weights are then normalised over all query
  points and one number is returned. For \<open>k > 1\<close> there is one row, and one number, per
  query point. An index beyond the stored values is Python's IndexError.
\<close>

definition predict :: "IDWInterpolator \<Rightarrow> point list \<Rightarrow> error + real list" where
  "predict self grid_points =
     (case tree self of
        None \<Rightarrow> Inl (ValueError ''Interpolator not fitted. Call fit() first.'')
      | Some pts \<Rightarrow>
          (case values' self of
             None \<Rightarrow> Inl TypeError
           | Some vals \<Rightarrow>
               (let k = min (max_neighbors self) (int (length vals)) in
                if k < 1 then Inl LibraryError
                else
                  (let found = map (\<lambda>q. query pts q (nat k)) grid_points;
                       rows = (if k = 1 then [concat found] else found)
                   in if list_ex (list_ex (\<lambda>(d, i). length vals \<le> i)) rows then Inl IndexError
                      else Inr (map (idw_row (power' self) vals) rows)))))"


text \<open>
  \<^verbatim>\<open>np.arange(start, stop, step)\<close> has \<open>ceil((stop - start) / step)\<close> elements (none
  when that is not positive), \<open>start + i * step\<close> each; numpy refuses a zero step.
  \<^verbatim>\<open>np.meshgrid(x, y)\<close> gives two arrays of \<open>len(y)\<close> rows and \<open>len(x)\<close> columns,
  \<^verbatim>\<open>ravel\<close> is \<^const>\<open>concat\<close>, \<^verbatim>\<open>np.c_\<close> pairs two columns, and
  \<^verbatim>\<open>reshape\<close> refuses a shape whose size is not the array's.
\<close>

definition arange :: "real \<Rightarrow> real \<Rightarrow> real \<Rightarrow> error + real list" where
  "arange start stop step =
     (if step = 0 then Inl LibraryError
      else Inr (map (\<lambda>i. start + real i * step) [0..<nat \<lceil>(stop - start) / step\<rceil>]))"

definition meshgrid :: "real list \<Rightarrow> real list \<Rightarrow> real list list \<times> real list list" where
  "meshgrid x y = (replicate (length y) x, map (\<lambda>v. replicate (length x) v) y)"

definition reshape :: "'a list \<Rightarrow> nat \<Rightarrow> nat \<Rightarrow> error + 'a list list" where
  "reshape xs rows cols =
     (if length xs = rows * cols then Inr (map (\<lambda>r. take cols (drop (r * cols) xs)) [0..<rows])
      else Inl LibraryError)"

definition interpolate_grid ::
  "IDWInterpolator \<Rightarrow> real \<times> real \<times> real \<times> real \<Rightarrow> real \<Rightarrow>
     error + (real list list \<times> real list list \<times> real list list)" where
  "interpolate_grid self bounds resolution =
     (case bounds of (min_x, min_y, max_x, max_y) \<Rightarrow>
        (case arange min_x max_x resolution of
           Inl e \<Rightarrow> Inl e
         | Inr x \<Rightarrow>
             (case arange min_y max_y resolution of
                Inl e \<Rightarrow> Inl e
              | Inr y \<Rightarrow>
                  (case meshgrid x y of (grid_x, grid_y) \<Rightarrow>
                     (let grid_points = zip (concat grid_x) (concat grid_y) in
                      case predict self grid_points of
                        Inl e \<Rightarrow> Inl e
                      | Inr grid_values \<Rightarrow>
                          (case reshape grid_values (length y) (length x) of
                             Inl e \<Rightarrow> Inl e
                           | Inr grid_values' \<Rightarrow> Inr (grid_x, grid_y, grid_values')))))))"

subsection \<open>ZoneDelineator\<close>

text \<open>
  scikit-learn is not part of the repository. The three calls the class makes are
  parameters of the model: \<^verbatim>\<open>StandardScaler().fit_transform(X)\<close>,
  \<^verbatim>\<open>KMeans(n_clusters=n, random_state=42, n_init=10).fit_predict(X)\<close> and
  \<^verbatim>\<open>silhouette_score(X, labels)\<close>. Each returns its result or fails.
\<close>

record sklearn =
  fit_transform :: "real list list \<Rightarrow> error + real list list"
  KMeans_fit_predict :: "int \<Rightarrow> real list list \<Rightarrow> error + nat list"
  silhouette_score :: "real list list \<Rightarrow> nat list \<Rightarrow> error + real"

text \<open>
  The attributes \<^verbatim>\<open>model\<close> and \<^verbatim>\<open>scaler\<close> hold scikit-learn objects and are left out.
\<close>

record ZoneDelineator =
  n_zones :: "int option"
  min_zones :: int
  max_zones :: int
  optimal_n_zones :: "int option"

definition ZoneDelineator_init :: "int option \<Rightarrow> int \<Rightarrow> int \<Rightarrow> ZoneDelineator" where
  "ZoneDelineator_init n lo hi =
     \<lparr>n_zones = n, min_zones = lo, max_zones = hi, optimal_n_zones = None\<rparr>"

text \<open>
  \<^verbatim>\<open>_find_optimal_zones\<close> is \<open>find_optimal_zones\<close> here, a name cannot begin with an
  underscore. The body of its loop (lines 148 to 150) for one \<open>n\<close>, and the loop:
\<close>

definition candidate_score :: "sklearn \<Rightarrow> real list list \<Rightarrow> int \<Rightarrow> error + real" where
  "candidate_score sk X n =
     (case KMeans_fit_predict sk n X of
        Inl e \<Rightarrow> Inl e
      | Inr labels \<Rightarrow> silhouette_score sk X labels)"

fun silhouette_scores :: "sklearn \<Rightarrow> real list list \<Rightarrow> int list \<Rightarrow> error + real list" where
  "silhouette_scores sk X [] = Inr []"
| "silhouette_scores sk X (n # ns) =
     (case candidate_score sk X n of
        Inl e \<Rightarrow> Inl e
      | Inr score \<Rightarrow>
          (case silhouette_scores sk X ns of
             Inl e \<Rightarrow> Inl e
           | Inr scores \<Rightarrow> Inr (score # scores)))"

text \<open>\<^verbatim>\<open>np.argmax\<close>: the first index of the largest element; it refuses an empty list.\<close>

definition argmax :: "real list \<Rightarrow> error + nat" where
  "argmax xs =
     (if xs = [] then Inl LibraryError
      else Inr (length (takeWhile (\<lambda>x. x \<noteq> Max (set xs)) xs)))"

definition find_optimal_zones :: "sklearn \<Rightarrow> ZoneDelineator \<Rightarrow> real list list \<Rightarrow> error + int" where
  "find_optimal_zones sk self X =
     (let zone_range = [min_zones self..max_zones self] in
      case silhouette_scores sk X zone_range of
        Inl e \<Rightarrow> Inl e
      | Inr scores \<Rightarrow>
          (case argmax scores of
             Inl e \<Rightarrow> Inl e
           | Inr optimal_idx \<Rightarrow> Inr (zone_range ! optimal_idx)))"

text \<open>
  \<^verbatim>\<open>yield_values.reshape(-1, 1)\<close> or \<^verbatim>\<open>np.c_[yield_values, features]\<close>: one row per
  value; numpy refuses features with another number of rows.
\<close>

definition feature_matrix :: "real list \<Rightarrow> real list list option \<Rightarrow> error + real list list" where
  "feature_matrix yield_values features =
     (case features of
        None \<Rightarrow> Inr (map (\<lambda>v. [v]) yield_values)
      | Some F \<Rightarrow>
          if length F = length yield_values then Inr (map2 (#) yield_values F)
          else Inl LibraryError)"

text \<open>
  \<^verbatim>\<open>yield_values[labels == i].mean()\<close>: the mean of the values labelled \<open>i\<close>; numpy
  gives not-a-number for an empty selection.
\<close>

definition zone_mean :: "real list \<Rightarrow> nat list \<Rightarrow> nat \<Rightarrow> real option" where
  "zone_mean yield_values labels i =
     (let selected = map fst (filter (\<lambda>(v, l). l = i) (zip yield_values labels))
      in if selected = [] then None else Some (sum_list selected / real (length selected)))"

text \<open>
  \<^verbatim>\<open>np.argsort\<close>: the indices in ascending order of their elements, a not-a-number
  after every number. Equal elements keep their index order here; numpy's default sort
  leaves their order open.
\<close>

definition nan_last :: "real option \<Rightarrow> bool \<times> real" where
  "nan_last m = (case m of None \<Rightarrow> (True, 0) | Some a \<Rightarrow> (False, a))"

definition argsort :: "real option list \<Rightarrow> nat list" where
  "argsort ms = sort_key (\<lambda>i. nan_last (ms ! i)) [0..<length ms]"

text \<open>\<^verbatim>\<open>[label_map[label] for label in labels]\<close>: a missing key is Python's KeyError.\<close>

fun remap :: "(nat \<rightharpoonup> nat) \<Rightarrow> nat list \<Rightarrow> error + nat list" where
  "remap label_map [] = Inr []"
| "remap label_map (l # ls) =
     (case label_map l of
        None \<Rightarrow> Inl KeyError
      | Some l' \<Rightarrow>
          (case remap label_map ls of
             Inl e \<Rightarrow> Inl e
           | Inr ls' \<Rightarrow> Inr (l' # ls')))"

text \<open>
  \<^verbatim>\<open>fit_predict\<close> returns the labels; the model returns the delineator as well, with
  \<^verbatim>\<open>optimal_n_zones\<close> set. A boolean mask of another length than the values is numpy's
  IndexError. \<^verbatim>\<open>label_map\<close> maps each old label to its position in \<^verbatim>\<open>zone_order\<close>.
\<close>

definition fit_predict ::
  "sklearn \<Rightarrow> ZoneDelineator \<Rightarrow> real list \<Rightarrow> real list list option \<Rightarrow>
     error + (ZoneDelineator \<times> nat list)" where
  "fit_predict sk self yield_values features =
     (case feature_matrix yield_values features of
        Inl e \<Rightarrow> Inl e
      | Inr X \<Rightarrow>
          (case fit_transform sk X of
             Inl e \<Rightarrow> Inl e
           | Inr X_scaled \<Rightarrow>
               (case (case n_zones self of
                        None \<Rightarrow> find_optimal_zones sk self X_scaled
                      | Some n \<Rightarrow> Inr n) of
                  Inl e \<Rightarrow> Inl e
                | Inr n \<Rightarrow>
                    (case KMeans_fit_predict sk n X_scaled of
                       Inl e \<Rightarrow> Inl e
                     | Inr labels \<Rightarrow>
                         if 0 < n \<and> length labels \<noteq> length yield_values then Inl IndexError
                         else
                           (let zone_means = map (zone_mean yield_values labels) [0..<nat n];
                                zone_order = argsort zone_means;
                                label_map = map_of (zip zone_order [0..<length zone_order])
                            in case remap label_map labels of
                                 Inl e \<Rightarrow> Inl e
                               | Inr labels' \<Rightarrow>
                                   Inr (self\<lparr>optimal_n_zones := Some n\<rparr>, labels'))))))"

subsection \<open>delineate_management_zones\<close>

text \<open>
  The function works on \<^verbatim>\<open>harvest_utm\<close>, the samples in planar coordinates, each a
  point with its yield; the reprojection with geopandas before and after is outside the
  model. \<^verbatim>\<open>values.min()\<close> in the first report line fails on no samples.

  One zone record: \<^verbatim>\<open>zone_name\<close> is \<open>"Zone "\<close> and \<open>zone_id + 1\<close> and is left out,
  \<^verbatim>\<open>yield_std\<close> is pandas' sample standard deviation (not-a-number for one point), and
  \<^verbatim>\<open>geometry\<close>, the convex hull computed by shapely, is kept as the points of the zone.
\<close>

record zone_record =
  zone_id :: nat
  n_points :: nat
  yield_mean :: real
  yield_std :: "real option"
  area_ha :: real
  geometry :: "point list"

text \<open>
  The result dictionary: \<^verbatim>\<open>zones_gdf\<close> (\<^verbatim>\<open>statistics\<close> repeats its columns),
  \<^verbatim>\<open>n_zones\<close>, here \<open>selected_n_zones\<close>, and the optional grid \<open>(x, y, z, zone_labels)\<close>.
\<close>

record results =
  zones_gdf :: "zone_record list"
  selected_n_zones :: int
  grid :: "(real list list \<times> real list list \<times> real list list \<times> nat list list) option"

definition sample_std :: "real list \<Rightarrow> real option" where
  "sample_std vs =
     (if length vs < 2 then None
      else Some (sqrt (sum_list (map (\<lambda>v. (v - sum_list vs / real (length vs))\<^sup>2) vs)
                       / real (length vs - 1))))"

text \<open>
  Lines 287 to 290: the index of the grid cell nearest to a point (scipy answers the
  number of cells when there is no cell), and the label of that cell; an index beyond the
  labels is numpy's IndexError.
\<close>

definition nearest_grid :: "point list \<Rightarrow> point \<Rightarrow> nat" where
  "nearest_grid grid_coords c =
     (case query grid_coords c 1 of [] \<Rightarrow> length grid_coords | (d, i) # rest \<Rightarrow> i)"

definition point_zones :: "point list \<Rightarrow> nat list \<Rightarrow> point list \<Rightarrow> error + nat list" where
  "point_zones grid_coords zone_labels coords =
     (let nearest = map (nearest_grid grid_coords) coords
      in if list_ex (\<lambda>i. length zone_labels \<le> i) nearest then Inl IndexError
         else Inr (map (\<lambda>i. zone_labels ! i) nearest))"

text \<open>The loop of lines 274 to 309 over the zone ids; a zone without points is skipped.\<close>

fun zone_loop ::
  "point list \<Rightarrow> nat list \<Rightarrow> (point \<times> real) list \<Rightarrow> real \<Rightarrow> nat list \<Rightarrow>
     error + zone_record list" where
  "zone_loop grid_coords zone_labels harvest_utm resolution [] = Inr []"
| "zone_loop grid_coords zone_labels harvest_utm resolution (zid # zids) =
     (case point_zones grid_coords zone_labels (map fst harvest_utm) of
        Inl e \<Rightarrow> Inl e
      | Inr pz \<Rightarrow>
          (let zone_points = map fst (filter (\<lambda>(s, z). z = zid) (zip harvest_utm pz))
           in if length zone_points = 0
              then zone_loop grid_coords zone_labels harvest_utm resolution zids
              else
                (case zone_loop grid_coords zone_labels harvest_utm resolution zids of
                   Inl e \<Rightarrow> Inl e
                 | Inr zones_list \<Rightarrow>
                     Inr (\<lparr>zone_id = zid,
                           n_points = length zone_points,
                           yield_mean = sum_list (map snd zone_points) / real (length zone_points),
                           yield_std = sample_std (map snd zone_points),
                           area_ha = real (length zone_points) * resolution * resolution / 10000,
                           geometry = map fst zone_points\<rparr> # zones_list))))"

text \<open>
  \<open>zone_records\<close> is the function up to the end of the zone loop (lines 244 to 309): it
  gives the grid \<open>(x, y, z, zone_labels)\<close>, the number of zones and the records.
\<close>

definition zone_records ::
  "sklearn \<Rightarrow> (point \<times> real) list \<Rightarrow> int option \<Rightarrow> real \<Rightarrow> real \<Rightarrow>
     error + ((real list list \<times> real list list \<times> real list list \<times> nat list list) \<times> int \<times>
              zone_record list)" where
  "zone_records sk harvest_utm n resolution idw_power =
     (let coords = map fst harvest_utm; vals = map snd harvest_utm in
      if vals = [] then Inl LibraryError
      else
        (case fit (IDWInterpolator_init idw_power 12) coords vals of
           Inl e \<Rightarrow> Inl e
         | Inr interpolator \<Rightarrow>
             (let bounds = (Min (set (map fst coords)), Min (set (map snd coords)),
                            Max (set (map fst coords)), Max (set (map snd coords)))
              in case interpolate_grid interpolator bounds resolution of
                   Inl e \<Rightarrow> Inl e
                 | Inr (grid_x, grid_y, grid_z) \<Rightarrow>
                     (case fit_predict sk (ZoneDelineator_init n 2 7) (concat grid_z) None of
                        Inl e \<Rightarrow> Inl e
                      | Inr (delineator, zone_labels) \<Rightarrow>
                          (case reshape zone_labels (length grid_z)
                                  (if grid_z = [] then 0 else length (hd grid_z)) of
                             Inl e \<Rightarrow> Inl e
                           | Inr zone_grid \<Rightarrow>
                               (case optimal_n_zones delineator of
                                  None \<Rightarrow> Inl TypeError
                                | Some k \<Rightarrow>
                                    (case zone_loop (zip (concat grid_x) (concat grid_y))
                                            zone_labels harvest_utm resolution [0..<nat k] of
                                       Inl e \<Rightarrow> Inl e
                                     | Inr zones_list \<Rightarrow>
                                         Inr ((grid_x, grid_y, grid_z, zone_grid), k,
                                              zones_list))))))))"

text \<open>
  Lines 311 to 331 put the records into a GeoDataFrame, report them and select the
  statistics columns. A frame made from no record has no column: pandas refuses to
  select the statistics columns from it, and geopandas may already refuse a frame that
  is given a reference system and has no geometry column. With at least one record the
  frame holds the records.
\<close>

definition zones_frame :: "zone_record list \<Rightarrow> error + zone_record list" where
  "zones_frame zones_list = (if zones_list = [] then Inl LibraryError else Inr zones_list)"

definition delineate_management_zones ::
  "sklearn \<Rightarrow> (point \<times> real) list \<Rightarrow> int option \<Rightarrow> real \<Rightarrow> real \<Rightarrow> bool \<Rightarrow> error + results" where
  "delineate_management_zones sk harvest_utm n resolution idw_power return_grid =
     (case zone_records sk harvest_utm n resolution idw_power of
        Inl e \<Rightarrow> Inl e
      | Inr (grid_data, k, zones_list) \<Rightarrow>
          (case zones_frame zones_list of
             Inl e \<Rightarrow> Inl e
           | Inr frame \<Rightarrow>
               Inr \<lparr>zones_gdf = frame,
                    selected_n_zones = k,
                    grid = (if return_grid then Some grid_data else None)\<rparr>))"

text \<open>
  A library behaviour for closed examples, on values that are 1 or 9 in equal numbers
  (mean 5, standard deviation 4): the scaler maps them to -1 and 1; the clustering refuses fewer
  samples than clusters and otherwise puts the high values in cluster 0 and, when there
  is more than one cluster, the low ones in cluster 1; the silhouette refuses fewer than
  two or more than \<open>n - 1\<close> distinct labels and otherwise scores the separated clusters 1.
\<close>

definition example_sklearn :: sklearn where
  "example_sklearn =
     \<lparr>fit_transform = (\<lambda>X. Inr (map (map (\<lambda>v. (v - 5) / 4)) X)),
      KMeans_fit_predict =
        (\<lambda>n X. if n < 1 \<or> int (length X) < n then Inl LibraryError
                else Inr (map (\<lambda>row. if hd row < 0 \<and> 1 < n then 1 else 0) X)),
      silhouette_score =
        (\<lambda>X labels. if length (remdups labels) < 2 \<or> length X \<le> length (remdups labels)
                      then Inl LibraryError else Inr 1)\<rparr>"

text \<open>
  A second library behaviour, for values around the three levels 1, 5 and 9: the same
  scaler; the clustering separates the low level from the rest for two clusters and the
  three levels for three or more (as scikit-learn does when there are no more distinct
  points than clusters); the silhouette scores the two-cluster partition 7/10 and the
  three separated levels 1.
\<close>

definition three_level_sklearn :: sklearn where
  "three_level_sklearn =
     \<lparr>fit_transform = (\<lambda>X. Inr (map (map (\<lambda>v. (v - 5) / 4)) X)),
      KMeans_fit_predict =
        (\<lambda>n X. if n < 1 \<or> int (length X) < n then Inl LibraryError
                else if n = 1 then Inr (map (\<lambda>row. 0) X)
                else if n = 2 then Inr (map (\<lambda>row. if hd row < 0 then 1 else 0) X)
                else Inr (map (\<lambda>row. if hd row < - (1 / 2) then 2
                                     else if hd row \<le> 1 / 2 then 0 else 1) X)),
      silhouette_score =
        (\<lambda>X labels. if length (remdups labels) < 2 \<or> length X \<le> length (remdups labels)
                      then Inl LibraryError
                      else if length (remdups labels) = 2 then Inr (7 / 10) else Inr 1)\<rparr>"

text \<open>
  A third library behaviour, for rows that carry an additional feature: the scaler leaves
  the rows as they are and the clustering follows the last feature of a row, rounded
  down to a cluster number.
\<close>

definition by_feature_sklearn :: sklearn where
  "by_feature_sklearn =
     \<lparr>fit_transform = (\<lambda>X. Inr X),
      KMeans_fit_predict =
        (\<lambda>n X. if n < 1 \<or> int (length X) < n then Inl LibraryError
                else Inr (map (\<lambda>row. min (nat \<lfloor>last row\<rfloor>) (nat n - 1)) X)),
      silhouette_score =
        (\<lambda>X labels. if length (remdups labels) < 2 \<or> length X \<le> length (remdups labels)
                      then Inl LibraryError else Inr (1 / 2))\<rparr>"

text \<open>
  A library that refuses nothing: it standardises an empty matrix and clusters into zero
  clusters, giving no label.
\<close>

definition lenient_sklearn :: sklearn where
  "lenient_sklearn =
     \<lparr>fit_transform = (\<lambda>X. Inr X),
      KMeans_fit_predict = (\<lambda>n X. if n < 1 then Inr [] else Inr (map (\<lambda>row. 0) X)),
      silhouette_score = (\<lambda>X labels. Inr 0)\<rparr>"

section \<open>Properties of the interpolator\<close>

subsection \<open>Neighbour queries and weights\<close>





lemma length_idw_weights: "length (idw_weights p row) = length row"
  by (simp add: idw_weights_def)










subsection \<open>Boundedness of the prediction\<close>




subsection \<open>Prediction before fit\<close>

text \<open>
  Claim C5. On an interpolator whose index is still \<open>None\<close>, as \<open>__init__\<close> leaves it,
  every call of \<open>predict\<close> fails with the not-fitted error, whatever the query points are:
  the code raises \<^verbatim>\<open>ValueError("Interpolator not fitted. Call fit() first.")\<close>.
\<close>

theorem predict_not_fitted:
  "tree self = None \<Longrightarrow>
     predict self qs = Inl (ValueError ''Interpolator not fitted. Call fit() first.'')"
  by (simp add: predict_def)

theorem predict_not_fitted_witness:
  "tree (IDWInterpolator_init 2 12) = None \<and>
   predict (IDWInterpolator_init 2 12) [(3, 4)] =
     Inl (ValueError ''Interpolator not fitted. Call fit() first.'')"
proof -
  have h: "tree (IDWInterpolator_init 2 12) = None"
    by (simp add: IDWInterpolator_init_def)
  from predict_not_fitted [OF h, of "[(3, 4)]"] h show ?thesis
    by simp
qed

subsection \<open>fit stores what it is given\<close>

text \<open>
  Claim C6 says that \<open>fit\<close> fails on arrays of different lengths and on empty arrays.
  It does not: two points and one value are stored as they are.
\<close>

theorem fit_mismatch_counterexample:
  "fit (IDWInterpolator_init 2 12) [(0, 0), (1, 1)] [5] =
     Inr \<lparr>power' = 2, max_neighbors = 12, tree = Some [(0, 0), (1, 1)], values' = Some [5]\<rparr> \<and>
   length [(0, 0), (1, 1) :: point] \<noteq> length [5 :: real]"
  by (simp add: fit_def IDWInterpolator_init_def)

text \<open>
  Claim C6, amended. \<open>fit\<close> validates nothing: for all points and values, of any lengths,
  it succeeds, the stored index is over exactly the given points, the stored values are
  exactly the given values, and the parameters are unchanged.
\<close>

theorem fit_stores_unchecked:
  "\<exists>self'. fit self points vals = Inr self' \<and> tree self' = Some points \<and>
     values' self' = Some vals \<and> power' self' = power' self \<and>
     max_neighbors self' = max_neighbors self"
  by (simp add: fit_def)


subsection \<open>Prediction at a fitted point\<close>
















subsection \<open>A single neighbour and several query points\<close>

text \<open>
  Claim C10. With one fitted point the query asks for one neighbour, scipy returns
  one-dimensional arrays, and the reshape of line 72 makes them one row: for the two
  query points below the weights 1 and 1/4 are normalised to 4/5 and 1/5 and a single
  number comes back, not one per query point. A grid of two cells can then not be
  reshaped, so \<open>interpolate_grid\<close> fails. The same happens with two fitted points and
  \<open>max_neighbors = 1\<close>, where the two fitted values 0 and 100 are blended into 50.
\<close>

theorem predict_single_neighbour_collapses:
  "predict \<lparr>power' = 2, max_neighbors = 12, tree = Some [(0, 0)], values' = Some [7]\<rparr>
     [(1, 0), (2, 0)] = Inr [7] \<and>
   map (\<lambda>w. w / sum_list (idw_weights 2 [(1, 0), (2, 0)])) (idw_weights 2 [(1, 0), (2, 0)])
     = [4 / 5, 1 / 5] \<and>
   interpolate_grid \<lparr>power' = 2, max_neighbors = 12, tree = Some [(0, 0)], values' = Some [7]\<rparr>
     (0, 0, 20, 10) 10 = Inl LibraryError \<and>
   predict \<lparr>power' = 2, max_neighbors = 1, tree = Some [(0, 0), (10, 0)], values' = Some [0, 100]\<rparr>
     [(0, 0), (10, 0)] = Inr [50]"
  by (simp add: interpolate_grid_def arange_def meshgrid_def reshape_def predict_def query_def
      dist2d_def idw_row_def idw_weights_def upt_rec)



subsection \<open>The shape of the interpolated grid\<close>














section \<open>Properties of the zone delineator\<close>

subsection \<open>Sorting, remapping and zone means\<close>

lemma length_argsort: "length (argsort ms) = length ms"
  by (simp add: argsort_def)

lemma set_argsort: "set (argsort ms) = {..<length ms}"
  by (auto simp: argsort_def)

lemma distinct_argsort: "distinct (argsort ms)"
  by (simp add: argsort_def)





lemma label_map_nth:
  assumes "distinct order" "j < length order"
  shows "map_of (zip order [0..<length order]) (order ! j) = Some j"
  using map_of_zip_nth [of order "[0..<length order]" j] assms by simp


lemma dom_label_map: "dom (map_of (zip order [0..<length order])) = set order"
  by (simp add: dom_map_of_zip)

lemma remap_Inr:
  "remap m ls = Inr ls' \<Longrightarrow> ls' = map (\<lambda>l. the (m l)) ls \<and> set ls \<subseteq> dom m"
  by (induction ls arbitrary: ls') (auto split: option.splits sum.splits)

lemma remap_total: "set ls \<subseteq> dom m \<Longrightarrow> remap m ls = Inr (map (\<lambda>l. the (m l)) ls)"
  by (induction ls) auto




lemma fit_predict_Inr:
  assumes "fit_predict sk self ys feats = Inr (self', labels')"
  shows "\<exists>X Xs n labels.
           feature_matrix ys feats = Inr X \<and> fit_transform sk X = Inr Xs \<and>
           (case n_zones self of None \<Rightarrow> find_optimal_zones sk self Xs | Some n \<Rightarrow> Inr n) = Inr n \<and>
           KMeans_fit_predict sk n Xs = Inr labels \<and>
           (0 < n \<longrightarrow> length labels = length ys) \<and>
           remap (map_of (zip (argsort (map (zone_mean ys labels) [0..<nat n]))
                    [0..<length (argsort (map (zone_mean ys labels) [0..<nat n]))])) labels = Inr labels' \<and>
           self' = self\<lparr>optimal_n_zones := Some n\<rparr>"
  using assms unfolding fit_predict_def Let_def
  by (auto split: sum.splits if_splits)



lemma remapped_labels_range:
  assumes "remap (map_of (zip (argsort ms) [0..<length (argsort ms)])) ls = Inr ls'"
  shows "set ls' \<subseteq> {..<length ms} \<and> length ls' = length ls"
proof -
  let ?order = "argsort ms"
  let ?m = "map_of (zip ?order [0..<length ?order])"
  from remap_Inr [OF assms]
  have ls': "ls' = map (\<lambda>l. the (?m l)) ls" and sub: "set ls \<subseteq> set ?order"
    by (simp_all add: dom_label_map)
  have "the (?m l) < length ms" if "l \<in> set ls" for l
  proof -
    from that sub have "l \<in> set ?order" by blast
    then obtain t where t: "t < length ?order" "l = ?order ! t"
      by (auto simp: in_set_conv_nth)
    then show ?thesis using label_map_nth [OF distinct_argsort t(1)] by (simp add: length_argsort)
  qed
  then show ?thesis unfolding ls' by auto
qed

subsection \<open>Labels are ordered by mean yield\<close>



subsection \<open>Selecting the number of zones\<close>

lemma silhouette_scores_iff:
  "silhouette_scores sk X ns = Inr scores \<longleftrightarrow>
     list_all2 (\<lambda>n s. candidate_score sk X n = Inr s) ns scores"
proof (induction ns arbitrary: scores)
  case Nil
  then show ?case by auto
next
  case (Cons n ns)
  show ?case
  proof (cases scores)
    case Nil
    then show ?thesis by (simp split: sum.splits)
  next
    case (Cons s ss)
    then show ?thesis using Cons.IH [of ss] by (auto split: sum.splits)
  qed
qed

lemma silhouette_scores_total:
  assumes "\<forall>n\<in>set ns. \<exists>s. candidate_score sk X n = Inr s"
  shows "\<exists>scores. silhouette_scores sk X ns = Inr scores"
  using assms
proof (induction ns)
  case Nil
  then show ?case by simp
next
  case (Cons n ns)
  then obtain s scores where "candidate_score sk X n = Inr s" "silhouette_scores sk X ns = Inr scores"
    by auto
  then show ?case by simp
qed

lemma argmax_first_max:
  assumes "xs \<noteq> []"
  shows "\<exists>i. argmax xs = Inr i \<and> i < length xs \<and> (\<forall>t<length xs. xs ! t \<le> xs ! i) \<and>
           (\<forall>t<length xs. xs ! t = xs ! i \<longrightarrow> i \<le> t)"
proof -
  define M where "M = Max (set xs)"
  define i where "i = length (takeWhile (\<lambda>x. x \<noteq> M) xs)"
  have "M \<in> set xs" unfolding M_def using assms by (intro Max_in) auto
  then have "takeWhile (\<lambda>x. x \<noteq> M) xs \<noteq> xs" by auto
  then have "length (takeWhile (\<lambda>x. x \<noteq> M) xs) \<noteq> length xs"
    using takeWhile_eq_take [of "\<lambda>x. x \<noteq> M" xs] by auto
  then have il: "i < length xs"
    unfolding i_def using length_takeWhile_le [of "\<lambda>x. x \<noteq> M" xs] by linarith
  then have xi: "xs ! i = M"
    using nth_length_takeWhile [of "\<lambda>x. x \<noteq> M" xs] by (simp add: i_def)
  have le: "xs ! t \<le> xs ! i" if "t < length xs" for t
    unfolding xi M_def using that by (intro Max_ge) auto
  have first: "i \<le> t" if "t < length xs" "xs ! t = xs ! i" for t
  proof (rule ccontr)
    assume "\<not> i \<le> t"
    then have t: "t < length (takeWhile (\<lambda>x. x \<noteq> M) xs)" by (simp add: i_def)
    then have "takeWhile (\<lambda>x. x \<noteq> M) xs ! t \<in> set (takeWhile (\<lambda>x. x \<noteq> M) xs)" by (rule nth_mem)
    then have "takeWhile (\<lambda>x. x \<noteq> M) xs ! t \<noteq> M" by (auto dest: set_takeWhileD)
    moreover have "takeWhile (\<lambda>x. x \<noteq> M) xs ! t = xs ! t" using t by (rule takeWhile_nth)
    ultimately show False using that(2) xi by simp
  qed
  have "argmax xs = Inr i" using assms by (simp add: argmax_def i_def M_def)
  then show ?thesis using il le first by blast
qed

lemma find_optimal_zones_spec:
  assumes "min_zones self \<le> max_zones self"
    and "\<forall>m. min_zones self \<le> m \<and> m \<le> max_zones self \<longrightarrow> (\<exists>s. candidate_score sk X m = Inr s)"
  shows "\<exists>n sn. find_optimal_zones sk self X = Inr n \<and>
           min_zones self \<le> n \<and> n \<le> max_zones self \<and> candidate_score sk X n = Inr sn \<and>
           (\<forall>m. min_zones self \<le> m \<and> m \<le> max_zones self \<longrightarrow>
              (\<exists>sm. candidate_score sk X m = Inr sm \<and> sm \<le> sn \<and> (sm = sn \<longrightarrow> n \<le> m)))"
proof -
  define lo hi where "lo = min_zones self" and "hi = max_zones self"
  define zr where "zr = [lo..hi]"
  have lz: "length zr = nat (hi - lo + 1)" by (simp add: zr_def)
  have nz: "zr ! t = lo + int t" if "t < length zr" for t
    using that unfolding zr_def by (intro nth_upto) (simp add: lz [unfolded zr_def])
  have "\<forall>n\<in>set zr. \<exists>s. candidate_score sk X n = Inr s"
    using assms(2) by (simp add: zr_def lo_def hi_def)
  from silhouette_scores_total [OF this] obtain scores where
    sc: "silhouette_scores sk X zr = Inr scores" by blast
  then have la: "list_all2 (\<lambda>n s. candidate_score sk X n = Inr s) zr scores"
    by (simp add: silhouette_scores_iff)
  then have ls: "length scores = length zr" by (simp add: list_all2_lengthD)
  have cs: "candidate_score sk X (zr ! t) = Inr (scores ! t)" if "t < length zr" for t
    using la that by (simp add: list_all2_conv_all_nth)
  have "scores \<noteq> []" using ls lz assms(1) by (auto simp: lo_def hi_def)
  from argmax_first_max [OF this] obtain i where
    am: "argmax scores = Inr i" and il: "i < length scores"
    and mx: "\<forall>t<length scores. scores ! t \<le> scores ! i"
    and fs: "\<forall>t<length scores. scores ! t = scores ! i \<longrightarrow> i \<le> t" by blast
  have f: "find_optimal_zones sk self X = Inr (zr ! i)"
    by (simp add: find_optimal_zones_def Let_def zr_def [symmetric] lo_def [symmetric]
        hi_def [symmetric] sc am)
  have ni: "zr ! i = lo + int i" using il ls by (simp add: nz)
  have rng: "lo \<le> zr ! i \<and> zr ! i \<le> hi" using ni il ls lz by auto
  have others: "\<exists>sm. candidate_score sk X m = Inr sm \<and> sm \<le> scores ! i \<and> (sm = scores ! i \<longrightarrow> zr ! i \<le> m)"
    if "lo \<le> m \<and> m \<le> hi" for m
  proof -
    define t where "t = nat (m - lo)"
    have t: "t < length zr" using that by (simp add: t_def lz)
    then have m: "zr ! t = m" using that by (simp add: nz t_def)
    have "candidate_score sk X m = Inr (scores ! t)" using cs [OF t] m by simp
    moreover have "scores ! t \<le> scores ! i" using mx t ls by simp
    moreover have "scores ! t = scores ! i \<longrightarrow> zr ! i \<le> m"
    proof
      assume "scores ! t = scores ! i"
      then have "i \<le> t" using fs t ls by simp
      then show "zr ! i \<le> m" using ni m nz [OF t] by simp
    qed
    ultimately show ?thesis by blast
  qed
  show ?thesis
    using f rng cs [of i] il ls others unfolding lo_def hi_def by (metis (no_types, lifting))
qed

lemma fit_predict_after_selection:
  assumes "feature_matrix ys feats = Inr X" "fit_transform sk X = Inr Xs"
    and "(case n_zones self of None \<Rightarrow> find_optimal_zones sk self Xs | Some n \<Rightarrow> Inr n) = Inr n"
    and "KMeans_fit_predict sk n Xs = Inr labels0" "length labels0 = length ys"
    and "set labels0 \<subseteq> {..<nat n}"
  shows "\<exists>labels. fit_predict sk self ys feats = Inr (self\<lparr>optimal_n_zones := Some n\<rparr>, labels) \<and>
           length labels = length ys"
proof -
  define ms where "ms = map (zone_mean ys labels0) [0..<nat n]"
  define m where "m = map_of (zip (argsort ms) [0..<length (argsort ms)])"
  have "dom m = {..<nat n}" by (simp add: m_def dom_label_map set_argsort ms_def)
  then have "remap m labels0 = Inr (map (\<lambda>l. the (m l)) labels0)"
    using assms(6) by (intro remap_total) simp
  then have "fit_predict sk self ys feats
      = Inr (self\<lparr>optimal_n_zones := Some n\<rparr>, map (\<lambda>l. the (m l)) labels0)"
    using assms(1-5) by (simp add: fit_predict_def Let_def ms_def [symmetric] m_def [symmetric])
  then show ?thesis using assms(5) by simp
qed

lemma fit_predict_auto:
  assumes "n_zones self = None" and "min_zones self \<le> max_zones self"
    and "feature_matrix ys feats = Inr X" and "fit_transform sk X = Inr Xs"
    and "\<forall>m. min_zones self \<le> m \<and> m \<le> max_zones self \<longrightarrow>
           (\<exists>labels s. KMeans_fit_predict sk m Xs = Inr labels \<and> length labels = length ys \<and>
              set labels \<subseteq> {..<nat m} \<and> silhouette_score sk Xs labels = Inr s)"
  shows "\<exists>labels n sn.
           fit_predict sk self ys feats = Inr (self\<lparr>optimal_n_zones := Some n\<rparr>, labels) \<and>
           length labels = length ys \<and>
           min_zones self \<le> n \<and> n \<le> max_zones self \<and> candidate_score sk Xs n = Inr sn \<and>
           (\<forall>m. min_zones self \<le> m \<and> m \<le> max_zones self \<longrightarrow>
              (\<exists>sm. candidate_score sk Xs m = Inr sm \<and> sm \<le> sn \<and> (sm = sn \<longrightarrow> n \<le> m)))"
proof -
  have "\<forall>m. min_zones self \<le> m \<and> m \<le> max_zones self \<longrightarrow> (\<exists>s. candidate_score sk Xs m = Inr s)"
    using assms(5) by (fastforce simp: candidate_score_def)
  from find_optimal_zones_spec [OF assms(2) this] obtain n sn where
    f: "find_optimal_zones sk self Xs = Inr n" and
    r: "min_zones self \<le> n \<and> n \<le> max_zones self" and
    c: "candidate_score sk Xs n = Inr sn" and
    b: "\<forall>m. min_zones self \<le> m \<and> m \<le> max_zones self \<longrightarrow>
              (\<exists>sm. candidate_score sk Xs m = Inr sm \<and> sm \<le> sn \<and> (sm = sn \<longrightarrow> n \<le> m))"
    by blast
  from assms(5) r obtain labels0 where
    k: "KMeans_fit_predict sk n Xs = Inr labels0" "length labels0 = length ys"
       "set labels0 \<subseteq> {..<nat n}" by blast
  have "(case n_zones self of None \<Rightarrow> find_optimal_zones sk self Xs | Some n \<Rightarrow> Inr n) = Inr n"
    using assms(1) f by simp
  from fit_predict_after_selection [OF assms(3,4) this k]
  show ?thesis using r c b by blast
qed

lemma example_library_ok:
  "\<forall>m. 2 \<le> m \<and> m \<le> 7 \<longrightarrow>
     (\<exists>labels s. KMeans_fit_predict example_sklearn m [[-1], [1], [-1], [1], [-1], [1], [-1], [1]] = Inr labels \<and>
        length labels = length [1, 9, 1, 9, 1, 9, 1, 9 :: real] \<and>
        set labels \<subseteq> {..<nat m} \<and>
        silhouette_score example_sklearn [[-1], [1], [-1], [1], [-1], [1], [-1], [1]] labels = Inr s)"
  by (auto simp: example_sklearn_def)



subsection \<open>Fewer distinct values than max_zones\<close>

text \<open>
  Claim C4 says that auto-selection fails when the input has fewer distinct values than
  \<open>max_zones\<close>. The code never counts distinct values: on eight values of which two are
  distinct, with the default range 2 to 7, it returns labels and selects two zones.
\<close>

theorem fit_predict_few_distinct_counterexample:
  "length (remdups [1, 9, 1, 9, 1, 9, 1, 9 :: real]) < nat (max_zones (ZoneDelineator_init None 2 7)) \<and>
   fit_predict example_sklearn (ZoneDelineator_init None 2 7) [1, 9, 1, 9, 1, 9, 1, 9] None =
     Inr (\<lparr>n_zones = None, min_zones = 2, max_zones = 7, optimal_n_zones = Some 2\<rparr>,
          [0, 1, 0, 1, 0, 1, 0, 1])"
  by (simp add: fit_predict_def feature_matrix_def example_sklearn_def ZoneDelineator_init_def
      find_optimal_zones_def candidate_score_def argmax_def zone_mean_def argsort_def
      nan_last_def upto_rec_numeral upt_conv_Cons Let_def)

text \<open>
  Claim C4, amended. In auto-selection mode \<open>fit_predict\<close> makes no check of its own:
  whenever the library calls succeed for every candidate of a non-empty range, it
  returns one label per input value, whatever the number of distinct values is. It can
  fail only where a library call fails.
\<close>

theorem fit_predict_auto_returns:
  assumes "n_zones self = None" and "min_zones self \<le> max_zones self"
    and "feature_matrix ys feats = Inr X" and "fit_transform sk X = Inr Xs"
    and "\<forall>m. min_zones self \<le> m \<and> m \<le> max_zones self \<longrightarrow>
           (\<exists>labels s. KMeans_fit_predict sk m Xs = Inr labels \<and> length labels = length ys \<and>
              set labels \<subseteq> {..<nat m} \<and> silhouette_score sk Xs labels = Inr s)"
  shows "\<exists>self' labels. fit_predict sk self ys feats = Inr (self', labels) \<and>
           length labels = length ys"
  using fit_predict_auto [OF assms] by blast

theorem fit_predict_auto_returns_witness:
  "n_zones (ZoneDelineator_init None 2 7) = None \<and>
   min_zones (ZoneDelineator_init None 2 7) \<le> max_zones (ZoneDelineator_init None 2 7) \<and>
   feature_matrix [1, 9, 1, 9, 1, 9, 1, 9] None = Inr [[1], [9], [1], [9], [1], [9], [1], [9]] \<and>
   fit_transform example_sklearn [[1], [9], [1], [9], [1], [9], [1], [9]] =
     Inr [[-1], [1], [-1], [1], [-1], [1], [-1], [1]] \<and>
   length (remdups [1, 9, 1, 9, 1, 9, 1, 9 :: real]) = 2 \<and>
   (\<exists>self' labels.
      fit_predict example_sklearn (ZoneDelineator_init None 2 7) [1, 9, 1, 9, 1, 9, 1, 9] None =
        Inr (self', labels) \<and>
      length labels = length [1, 9, 1, 9, 1, 9, 1, 9 :: real])"
proof -
  let ?ys = "[1, 9, 1, 9, 1, 9, 1, 9] :: real list"
  let ?self = "ZoneDelineator_init None 2 7"
  have a: "n_zones ?self = None" and r: "min_zones ?self \<le> max_zones ?self"
    by (simp_all add: ZoneDelineator_init_def)
  have X: "feature_matrix ?ys None = Inr [[1], [9], [1], [9], [1], [9], [1], [9]]"
    by (simp add: feature_matrix_def)
  have Xs: "fit_transform example_sklearn [[1], [9], [1], [9], [1], [9], [1], [9]] =
     Inr [[-1], [1], [-1], [1], [-1], [1], [-1], [1]]"
    by (simp add: example_sklearn_def)
  have lib: "\<forall>m. min_zones ?self \<le> m \<and> m \<le> max_zones ?self \<longrightarrow>
     (\<exists>labels s. KMeans_fit_predict example_sklearn m [[-1], [1], [-1], [1], [-1], [1], [-1], [1]] = Inr labels \<and>
        length labels = length ?ys \<and> set labels \<subseteq> {..<nat m} \<and>
        silhouette_score example_sklearn [[-1], [1], [-1], [1], [-1], [1], [-1], [1]] labels = Inr s)"
    using example_library_ok by (simp add: ZoneDelineator_init_def)
  have d: "length (remdups ?ys) = 2" by simp
  from fit_predict_auto_returns [OF a r X Xs lib]
  have "\<exists>self' labels. fit_predict example_sklearn ?self ?ys None = Inr (self', labels) \<and>
      length labels = length ?ys" .
  with a r X Xs d show ?thesis by (intro conjI)
qed

section \<open>Properties of the workflow\<close>

lemma point_zones_Inr:
  assumes "point_zones gc zl cs = Inr pz"
  shows "length pz = length cs \<and> set pz \<subseteq> set zl"
proof -
  let ?nearest = "map (nearest_grid gc) cs"
  have ok: "\<not> list_ex (\<lambda>i. length zl \<le> i) ?nearest" and pz: "pz = map (\<lambda>i. zl ! i) ?nearest"
    using assms by (auto simp: point_zones_def Let_def split: if_splits)
  have "\<forall>i\<in>set ?nearest. i < length zl" using ok by (auto simp: list_ex_iff)
  then show ?thesis unfolding pz by auto
qed

lemma zone_loop_runs:
  assumes "zone_loop gc zl h res ids = Inr zs" "ids \<noteq> []"
  shows "\<exists>pz. point_zones gc zl (map fst h) = Inr pz"
  using assms by (cases ids) (auto split: sum.splits)

lemma zone_points_count:
  "length pz = length h \<Longrightarrow>
     length (map fst (filter (\<lambda>(s, z). z = zid) (zip h pz))) = count_list pz zid"
proof (induction h pz rule: list_induct2')
  case (4 x xs y ys)
  then show ?case by auto
qed simp_all

lemma zone_loop_ids:
  assumes "point_zones gc zl (map fst h) = Inr pz"
  shows "\<exists>zs. zone_loop gc zl h res ids = Inr zs \<and>
           map zone_id zs = filter (\<lambda>i. i \<in> set pz) ids \<and>
           (\<forall>z\<in>set zs. n_points z = count_list pz (zone_id z) \<and> 0 < n_points z)"
proof (induction ids)
  case Nil
  then show ?case by simp
next
  case (Cons zid ids)
  then obtain zs where zs: "zone_loop gc zl h res ids = Inr zs"
    "map zone_id zs = filter (\<lambda>i. i \<in> set pz) ids"
    "\<forall>z\<in>set zs. n_points z = count_list pz (zone_id z) \<and> 0 < n_points z" by blast
  have len: "length pz = length h" using point_zones_Inr [OF assms] by simp
  have cnt: "length (map fst (filter (\<lambda>(s, z). z = zid) (zip h pz))) = count_list pz zid"
    using len by (rule zone_points_count)
  define zp where "zp = map fst (filter (\<lambda>(s, z). z = zid) (zip h pz))"
  have step: "zone_loop gc zl h res (zid # ids) =
      (if length zp = 0 then Inr zs
       else Inr (\<lparr>zone_id = zid, n_points = length zp,
                  yield_mean = sum_list (map snd zp) / real (length zp),
                  yield_std = sample_std (map snd zp),
                  area_ha = real (length zp) * res * res / 10000,
                  geometry = map fst zp\<rparr> # zs))"
    using assms zs(1) by (simp add: Let_def zp_def)
  have cnt': "length zp = count_list pz zid" using cnt by (simp add: zp_def)
  show ?case
  proof (cases "zid \<in> set pz")
    case True
    then have "count_list pz zid \<noteq> 0" by (simp add: count_list_0_iff)
    then have pos: "0 < length zp" using cnt' by simp
    then have "zone_loop gc zl h res (zid # ids) =
        Inr (\<lparr>zone_id = zid, n_points = length zp,
                  yield_mean = sum_list (map snd zp) / real (length zp),
                  yield_std = sample_std (map snd zp),
                  area_ha = real (length zp) * res * res / 10000,
                  geometry = map fst zp\<rparr> # zs)"
      unfolding step by simp
    then show ?thesis using zs(2,3) True pos cnt' by auto
  next
    case False
    then have "count_list pz zid = 0" by (simp add: count_list_0_iff)
    then have "zone_loop gc zl h res (zid # ids) = Inr zs" unfolding step using cnt' by simp
    then show ?thesis using zs(2,3) False by auto
  qed
qed

lemma fit_predict_labels_range:
  assumes "fit_predict sk self ys feats = Inr (self', labels)" "optimal_n_zones self' = Some k"
  shows "set labels \<subseteq> {..<nat k}"
proof -
  from fit_predict_Inr [OF assms(1)] obtain n labels0 where
    rm: "remap (map_of (zip (argsort (map (zone_mean ys labels0) [0..<nat n]))
            [0..<length (argsort (map (zone_mean ys labels0) [0..<nat n]))])) labels0 = Inr labels"
    and self': "self' = self\<lparr>optimal_n_zones := Some n\<rparr>"
    by blast
  have "k = n" using assms(2) self' by simp
  then show ?thesis using remapped_labels_range [OF rm] by simp
qed

lemma zone_records_Inr:
  assumes "zone_records sk harvest n res p = Inr (g, k, zones_list)"
  shows "harvest \<noteq> [] \<and>
         (\<exists>gc delineator zone_labels grid_coords.
            fit_predict sk (ZoneDelineator_init n 2 7) gc None = Inr (delineator, zone_labels) \<and>
            optimal_n_zones delineator = Some k \<and>
            zone_loop grid_coords zone_labels harvest res [0..<nat k] = Inr zones_list)"
  using assms unfolding zone_records_def Let_def
  by (auto split: sum.splits if_splits prod.splits option.splits)

lemma zone_records_labels:
  assumes "zone_records sk harvest n res p = Inr (g, k, zones_list)" "0 < k"
  shows "\<exists>pz. length pz = length harvest \<and> pz \<noteq> [] \<and> set pz \<subseteq> {..<nat k} \<and>
           map zone_id zones_list = filter (\<lambda>i. i \<in> set pz) [0..<nat k] \<and>
           (\<forall>z\<in>set zones_list. n_points z = count_list pz (zone_id z) \<and> 0 < n_points z)"
proof -
  from zone_records_Inr [OF assms(1)] obtain gc delineator zone_labels grid_coords where
    ne: "harvest \<noteq> []" and
    fp: "fit_predict sk (ZoneDelineator_init n 2 7) gc None = Inr (delineator, zone_labels)" and
    opt: "optimal_n_zones delineator = Some k" and
    zl: "zone_loop grid_coords zone_labels harvest res [0..<nat k] = Inr zones_list"
    by blast
  have "[0..<nat k] \<noteq> []" using assms(2) by simp
  from zone_loop_runs [OF zl this] obtain pz where
    pz: "point_zones grid_coords zone_labels (map fst harvest) = Inr pz" by blast
  from point_zones_Inr [OF pz] have len: "length pz = length harvest"
    and sub: "set pz \<subseteq> set zone_labels" by simp_all
  have rng: "set pz \<subseteq> {..<nat k}" using sub fit_predict_labels_range [OF fp opt] by blast
  from zone_loop_ids [OF pz, of res "[0..<nat k]"] obtain zs where
    zs: "zone_loop grid_coords zone_labels harvest res [0..<nat k] = Inr zs"
    and ids': "map zone_id zs = filter (\<lambda>i. i \<in> set pz) [0..<nat k]"
    and cnt': "\<forall>z\<in>set zs. n_points z = count_list pz (zone_id z) \<and> 0 < n_points z"
    by blast
  have "zs = zones_list" using zs zl by simp
  moreover have "pz \<noteq> []" using ne len by auto
  ultimately show ?thesis using len rng ids' cnt' by blast
qed

lemma zone_records_nonempty:
  assumes "zone_records sk harvest n res p = Inr (g, k, zones_list)"
  shows "zones_list \<noteq> [] \<longleftrightarrow> 0 < k"
proof
  assume "zones_list \<noteq> []"
  show "0 < k"
  proof (rule ccontr)
    assume "\<not> 0 < k"
    then have "[0..<nat k] = []" by simp
    moreover from zone_records_Inr [OF assms] obtain zl gcs where
      "zone_loop gcs zl harvest res [0..<nat k] = Inr zones_list" by blast
    ultimately show False using \<open>zones_list \<noteq> []\<close> by simp
  qed
next
  assume "0 < k"
  from zone_records_labels [OF assms this] obtain pz where
    pz: "pz \<noteq> []" "set pz \<subseteq> {..<nat k}"
    "map zone_id zones_list = filter (\<lambda>i. i \<in> set pz) [0..<nat k]" by blast
  obtain z0 where z0: "z0 \<in> set pz" using pz(1) by (cases pz) auto
  then have "z0 \<in> set (filter (\<lambda>i. i \<in> set pz) [0..<nat k])" using pz(2) by auto
  then have "filter (\<lambda>i. i \<in> set pz) [0..<nat k] \<noteq> []" by (metis empty_iff list.set(1))
  then have "map zone_id zones_list \<noteq> []" unfolding pz(3) .
  then show "zones_list \<noteq> []" by auto
qed

text \<open>
  Claim C9. The records of the zone loop are those of the zone ids that received at least
  one harvest point, in ascending order of the ids, each with the number of its points: a
  zone id without points is dropped and the workflow goes on. When the loop leaves no
  record at all, the workflow fails when it builds and reports the frame of the zones and
  returns no bundle; so a bundle has at least one zone, and at least one zone was asked
  for. With at least one harvest point and at least one zone id the loop always leaves a
  record, since every point is given some zone id: the loop leaves no record only when no
  zone id is run through.
\<close>

theorem delineate_never_all_empty:
  "(\<forall>g k. zone_records sk harvest_utm n resolution idw_power = Inr (g, k, []) \<longrightarrow>
      delineate_management_zones sk harvest_utm n resolution idw_power return_grid
        = Inl LibraryError) \<and>
   (\<forall>r. delineate_management_zones sk harvest_utm n resolution idw_power return_grid = Inr r \<longrightarrow>
      zones_gdf r \<noteq> [] \<and> 0 < selected_n_zones r \<and>
      (\<exists>pz. length pz = length harvest_utm \<and> set pz \<subseteq> {..<nat (selected_n_zones r)} \<and>
         map zone_id (zones_gdf r) = filter (\<lambda>i. i \<in> set pz) [0..<nat (selected_n_zones r)] \<and>
         (\<forall>z\<in>set (zones_gdf r). n_points z = count_list pz (zone_id z) \<and> 0 < n_points z)))"
proof -
  have fails: "delineate_management_zones sk harvest_utm n resolution idw_power return_grid
        = Inl LibraryError"
    if "zone_records sk harvest_utm n resolution idw_power = Inr (g, k, [])" for g k
    using that by (simp add: delineate_management_zones_def zones_frame_def)
  have returns: "zones_gdf r \<noteq> [] \<and> 0 < selected_n_zones r \<and>
      (\<exists>pz. length pz = length harvest_utm \<and> set pz \<subseteq> {..<nat (selected_n_zones r)} \<and>
         map zone_id (zones_gdf r) = filter (\<lambda>i. i \<in> set pz) [0..<nat (selected_n_zones r)] \<and>
         (\<forall>z\<in>set (zones_gdf r). n_points z = count_list pz (zone_id z) \<and> 0 < n_points z))"
    if d: "delineate_management_zones sk harvest_utm n resolution idw_power return_grid = Inr r"
    for r
  proof -
    from d obtain g zones_list where
      zr: "zone_records sk harvest_utm n resolution idw_power
             = Inr (g, selected_n_zones r, zones_list)"
      and ne: "zones_list \<noteq> []" and z: "zones_gdf r = zones_list"
      unfolding delineate_management_zones_def zones_frame_def
      by (auto split: sum.splits prod.splits if_splits)
    have k: "0 < selected_n_zones r" using zone_records_nonempty [OF zr] ne by simp
    from zone_records_labels [OF zr k] obtain pz where
      "length pz = length harvest_utm" "set pz \<subseteq> {..<nat (selected_n_zones r)}"
      "map zone_id zones_list = filter (\<lambda>i. i \<in> set pz) [0..<nat (selected_n_zones r)]"
      "\<forall>z\<in>set zones_list. n_points z = count_list pz (zone_id z) \<and> 0 < n_points z"
      by blast
    then show ?thesis using ne k z by blast
  qed
  show ?thesis using fails returns by blast
qed

subsection \<open>Runs of the workflow\<close>

lemma max_sqrt_floor: "1 \<le> q \<Longrightarrow> max (sqrt q) (1 / 10000000000) = sqrt q"
proof -
  assume "1 \<le> q"
  then have "1 \<le> sqrt q" by simp
  moreover have "(1 :: real) / 10000000000 \<le> 1" by simp
  ultimately have "1 / 10000000000 \<le> sqrt q" by (rule order_trans [rotated])
  then show ?thesis by (rule max_absorb1)
qed

lemma skipped_zone_grid: "interpolate_grid \<lparr>power' = 2, max_neighbors = 12, tree = Some [(0, 0), (30, 10)],
      values' = Some [1, 25]\<rparr> (0, 0, 30, 10) 10 = Inr ([[0, 10, 20]], [[0, 0, 0]], [[100000000000000000000025 / 100000000000000000000001, 5, 17]])"
  apply (simp add: interpolate_grid_def arange_def meshgrid_def reshape_def predict_def query_def
        dist2d_def idw_row_def idw_weights_def upt_rec max_sqrt_floor)
  apply (simp add: power2_eq_square field_simps)?
  done

lemma skipped_zone_labels: "fit_predict three_level_sklearn (ZoneDelineator_init (Some 3) 2 7)
       [100000000000000000000025 / 100000000000000000000001, 5, 17] None
     = Inr (\<lparr>n_zones = Some 3, min_zones = 2, max_zones = 7, optimal_n_zones = Some 3\<rparr>,
            [0, 1, 2])"
  by (simp add: fit_predict_def feature_matrix_def three_level_sklearn_def ZoneDelineator_init_def
        zone_mean_def argsort_def nan_last_def upt_conv_Cons Let_def)

lemma skipped_zone_points: "point_zones [(0, 0), (10, 0), (20, 0)] [0, Suc 0, 2] [(0, 0), (30, 10)] = Inr [0, 2]"
  by (simp add: point_zones_def nearest_grid_def query_def dist2d_def upt_conv_Cons)

lemma skipped_zone_records: "zone_records three_level_sklearn [((0, 0), 1), ((30, 10), 25)] (Some 3) 10 2 =
   Inr (([[0, 10, 20]], [[0, 0, 0]],
         [[100000000000000000000025 / 100000000000000000000001, 5, 17]], [[0, 1, 2]]), 3,
        [\<lparr>zone_id = 0, n_points = 1, yield_mean = 1, yield_std = None, area_ha = 1 / 100,
            geometry = [(0, 0)]\<rparr>,
         \<lparr>zone_id = 2, n_points = 1, yield_mean = 25, yield_std = None, area_ha = 1 / 100,
            geometry = [(30, 10)]\<rparr>])"
  by (simp add: zone_records_def fit_def IDWInterpolator_init_def skipped_zone_grid
        skipped_zone_labels reshape_def skipped_zone_points sample_std_def upt_conv_Cons)

lemma no_cell_grid: "interpolate_grid \<lparr>power' = 2, max_neighbors = 12, tree = Some [(0, 0), (0, 5)],
      values' = Some [1, 9]\<rparr> (0, 0, 0, 5) 10 = Inr ([[]], [[]], [[]])"
  by (simp add: interpolate_grid_def arange_def meshgrid_def reshape_def predict_def query_def
        dist2d_def idw_row_def idw_weights_def upt_rec)

lemma no_cluster_labels: "fit_predict lenient_sklearn (ZoneDelineator_init (Some 0) 2 7) [] None
     = Inr (\<lparr>n_zones = Some 0, min_zones = 2, max_zones = 7, optimal_n_zones = Some 0\<rparr>, [])"
  by (simp add: fit_predict_def feature_matrix_def lenient_sklearn_def ZoneDelineator_init_def
        zone_mean_def argsort_def nan_last_def Let_def)

lemma no_zone_records: "zone_records lenient_sklearn [((0, 0), 1), ((0, 5), 9)] (Some 0) 10 2 =
   Inr (([[]], [[]], [[]], [[]]), 0, [])"
  by (simp add: zone_records_def fit_def IDWInterpolator_init_def no_cell_grid
        no_cluster_labels reshape_def)

lemma zero_clusters_refused: "fit_predict three_level_sklearn (ZoneDelineator_init (Some 0) 2 7)
       [100000000000000000000025 / 100000000000000000000001, 5, 17] None = Inl LibraryError"
  by (simp add: fit_predict_def feature_matrix_def three_level_sklearn_def ZoneDelineator_init_def
        Let_def)

lemma zero_zones_refused:
  "delineate_management_zones three_level_sklearn [((0, 0), 1), ((30, 10), 25)] (Some 0) 10 2 False
     = Inl LibraryError"
  by (simp add: delineate_management_zones_def zone_records_def fit_def IDWInterpolator_init_def
        skipped_zone_grid zero_clusters_refused)

text \<open>
  Three runs. With three zones asked for and two harvest points, at opposite corners of a
  grid of three cells, the middle cell is a zone of its own and receives no point: zone 1
  is dropped and the bundle holds zones 0 and 2. With zero zones asked for, the second
  library refuses to cluster and the workflow fails there; with the library that refuses
  nothing, the loop leaves no record and the workflow fails at the frame.
\<close>

theorem delineate_never_all_empty_witness:
  "delineate_management_zones three_level_sklearn [((0, 0), 1), ((30, 10), 25)] (Some 3) 10 2 False =
     Inr \<lparr>zones_gdf =
            [\<lparr>zone_id = 0, n_points = 1, yield_mean = 1, yield_std = None, area_ha = 1 / 100,
               geometry = [(0, 0)]\<rparr>,
             \<lparr>zone_id = 2, n_points = 1, yield_mean = 25, yield_std = None, area_ha = 1 / 100,
               geometry = [(30, 10)]\<rparr>],
          selected_n_zones = 3,
          grid = None\<rparr> \<and>
   (\<exists>pz. length pz = 2 \<and> set pz \<subseteq> {..<3} \<and> [0, 2] = filter (\<lambda>i. i \<in> set pz) [0..<3]) \<and>
   delineate_management_zones three_level_sklearn [((0, 0), 1), ((30, 10), 25)] (Some 0) 10 2 False
     = Inl LibraryError \<and>
   zone_records lenient_sklearn [((0, 0), 1), ((0, 5), 9)] (Some 0) 10 2
     = Inr (([[]], [[]], [[]], [[]]), 0, []) \<and>
   delineate_management_zones lenient_sklearn [((0, 0), 1), ((0, 5), 9)] (Some 0) 10 2 False
     = Inl LibraryError"
proof -
  let ?r = "\<lparr>zones_gdf =
            [\<lparr>zone_id = 0, n_points = 1, yield_mean = 1, yield_std = None, area_ha = 1 / 100,
               geometry = [(0 :: real, 0 :: real)]\<rparr>,
             \<lparr>zone_id = 2, n_points = 1, yield_mean = 25, yield_std = None, area_ha = 1 / 100,
               geometry = [(30, 10)]\<rparr>],
          selected_n_zones = 3,
          grid = None :: (real list list \<times> real list list \<times> real list list \<times> nat list list) option\<rparr>"
  have d: "delineate_management_zones three_level_sklearn [((0, 0), 1), ((30, 10), 25)] (Some 3)
      10 2 False = Inr ?r"
    by (simp add: delineate_management_zones_def skipped_zone_records zones_frame_def)
  from delineate_never_all_empty [of three_level_sklearn "[((0, 0), 1), ((30, 10), 25)]" "Some 3"
      10 2 False] d
  have "\<exists>pz. length pz = length [((0 :: real, 0 :: real), 1 :: real), ((30, 10), 25)] \<and>
      set pz \<subseteq> {..<nat (selected_n_zones ?r)} \<and>
      map zone_id (zones_gdf ?r) = filter (\<lambda>i. i \<in> set pz) [0..<nat (selected_n_zones ?r)]"
    by blast
  then have e: "\<exists>pz. length pz = 2 \<and> set pz \<subseteq> {..<3} \<and>
      [0, 2] = filter (\<lambda>i. i \<in> set pz) [0..<3]"
    by (simp add: numeral_2_eq_2)
  from delineate_never_all_empty [of lenient_sklearn "[((0, 0), 1), ((0, 5), 9)]" "Some 0"
      10 2 False] no_zone_records
  have f: "delineate_management_zones lenient_sklearn [((0, 0), 1), ((0, 5), 9)] (Some 0) 10 2
      False = Inl LibraryError"
    by blast
  show ?thesis using d e f zero_zones_refused no_zone_records by simp
qed

end
